theory Spec2Isabelle
  imports Main
begin

section \<open>JavaScript values\<close>

text \<open>
  A JavaScript string is a sequence of UTF-16 code units. The model keeps the code units
  below 256 (\<^typ>\<open>char\<close>), so \<open>length\<close> is the \<open>.length\<close> of such a string. Numbers are
  the integers the code-scanning API delivers (alert numbers, lines, columns).
  An object is the list of its own properties in creation order.
\<close>

datatype jsval =
    JUndefined
  | JNum int
  | JStr string
  | JObj "(string \<times> jsval) list"

type_synonym jsobj = "(string \<times> jsval) list"

subsection \<open>Strings and numbers\<close>

definition NL :: string where
  "NL = [CHR 0x0A]"

text \<open>
  \<open>String.prototype.toLowerCase\<close> on code units below 256: the letters A to Z and the
  capital letters of the Latin-1 block (U+00C0 to U+00DE without the multiplication sign)
  move up by 32; every other code unit stays.
\<close>

definition toLowerCase_char :: "char \<Rightarrow> char" where
  "toLowerCase_char c =
    (let n = (of_char c :: nat)
     in if (65 \<le> n \<and> n \<le> 90) \<or> (192 \<le> n \<and> n \<le> 222 \<and> n \<noteq> 215)
        then char_of (n + 32) else c)"

definition toLowerCase :: "string \<Rightarrow> string" where
  "toLowerCase s = map toLowerCase_char s"

text \<open>The decimal numeral of a number, as \<open>toString\<close> and template literals print it.\<close>

fun digits :: "nat \<Rightarrow> string" where
  "digits n =
    (if n < 10 then [char_of (48 + n)]
     else digits (n div 10) @ [char_of (48 + n mod 10)])"

declare digits.simps [simp del]

definition num_str :: "int \<Rightarrow> string" where
  "num_str i = (if i < 0 then CHR ''-'' # digits (nat (- i)) else digits (nat i))"

text \<open>The string a value turns into inside a template literal.\<close>

fun to_string :: "jsval \<Rightarrow> string" where
  "to_string JUndefined = ''undefined''"
| "to_string (JNum i) = num_str i"
| "to_string (JStr s) = s"
| "to_string (JObj ps) = ''[object Object]''"

text \<open>\<open>Array.prototype.join\<close> over strings; the empty array gives the empty string.\<close>

fun join :: "string \<Rightarrow> string list \<Rightarrow> string" where
  "join sep [] = []"
| "join sep [x] = x"
| "join sep (x # y # ys) = x @ sep @ join sep (y # ys)"

text \<open>An element of an array as \<open>join\<close> prints it: \<open>undefined\<close> gives nothing.\<close>

definition join_elem :: "jsval \<Rightarrow> string" where
  "join_elem v = (case v of JUndefined \<Rightarrow> [] | _ \<Rightarrow> to_string v)"

text \<open>\<open>s.padEnd(w)\<close>: spaces up to length \<open>w\<close>, nothing when \<open>s\<close> is that long already.\<close>

definition padEnd :: "string \<Rightarrow> nat \<Rightarrow> string" where
  "padEnd s w = s @ replicate (w - length s) CHR '' ''"

text \<open>An array read \<open>xs[i]\<close>: \<open>undefined\<close>, here \<open>None\<close>, beyond the end.\<close>

definition at :: "'a list \<Rightarrow> nat \<Rightarrow> 'a option" where
  "at xs i = (if i < length xs then Some (xs ! i) else None)"

subsection \<open>\<open>JSON.stringify(value, null, 2)\<close>\<close>

definition hex_digit :: "nat \<Rightarrow> char" where
  "hex_digit n = ''0123456789abcdef'' ! (n mod 16)"

definition json_escape :: "char \<Rightarrow> string" where
  "json_escape c =
    (let n = (of_char c :: nat)
     in if n = 0x22 then [CHR 0x5C, CHR 0x22]
        else if n = 0x5C then [CHR 0x5C, CHR 0x5C]
        else if n = 8 then [CHR 0x5C, CHR ''b'']
        else if n = 9 then [CHR 0x5C, CHR ''t'']
        else if n = 10 then [CHR 0x5C, CHR ''n'']
        else if n = 12 then [CHR 0x5C, CHR ''f'']
        else if n = 13 then [CHR 0x5C, CHR ''r'']
        else if n < 32 then [CHR 0x5C, CHR ''u'', CHR ''0'', CHR ''0'', hex_digit (n div 16), hex_digit n]
        else [c])"

definition json_quote :: "string \<Rightarrow> string" where
  "json_quote s = [CHR 0x22] @ concat (map json_escape s) @ [CHR 0x22]"

definition spaces :: "nat \<Rightarrow> string" where
  "spaces n = replicate n CHR '' ''"

text \<open>A bracketed block, its items one per line at the deeper indentation.\<close>

definition json_block :: "char \<Rightarrow> char \<Rightarrow> nat \<Rightarrow> string list \<Rightarrow> string" where
  "json_block l r ind items =
    (if items = [] then [l, r]
     else [l] @ NL @ join ('','' @ NL) (map (\<lambda>i. spaces (ind + 2) @ i) items)
          @ NL @ spaces ind @ [r])"

text \<open>
  The serialisation of one value at an indentation; \<open>None\<close> is the \<open>undefined\<close> that
  makes an object leave the property out.
\<close>

fun stringify_val :: "nat \<Rightarrow> jsval \<Rightarrow> string option" where
  "stringify_val ind JUndefined = None"
| "stringify_val ind (JNum i) = Some (num_str i)"
| "stringify_val ind (JStr s) = Some (json_quote s)"
| "stringify_val ind (JObj ps) =
    Some (json_block CHR ''{'' CHR ''}'' ind
      (concat (map (\<lambda>p. case stringify_val (ind + 2) (snd p) of
                           None \<Rightarrow> []
                         | Some s \<Rightarrow> [json_quote (fst p) @ '': '' @ s]) ps)))"

definition JSON_stringify :: "jsobj \<Rightarrow> string" where
  "JSON_stringify obj = (case stringify_val 0 (JObj obj) of None \<Rightarrow> [] | Some s \<Rightarrow> s)"

text \<open>An array of objects; an element that serialises to nothing prints as \<open>null\<close>.\<close>

definition JSON_stringify_array :: "jsobj list \<Rightarrow> string" where
  "JSON_stringify_array objs =
    json_block CHR ''['' CHR '']'' 0
      (map (\<lambda>obj. case stringify_val 2 (JObj obj) of None \<Rightarrow> ''null'' | Some s \<Rightarrow> s) objs)"

section \<open>The alert as the API delivers it (lib/codeql.ts)\<close>

text \<open>
  The interface \<open>CodeQLAlert\<close>, one record per nested object. Field names carry the
  initial of their object, since \<open>id\<close>, \<open>text\<close>, \<open>help\<close> and the two \<open>name\<close> fields cannot be
  declared as they stand. \<open>help\<close> is the one optional field.
\<close>

record Rule =
  r_id :: string
  r_severity :: string
  r_description :: string
  r_name :: string

record Message =
  m_text :: string

record Location =
  l_path :: string
  l_start_line :: int
  l_end_line :: int
  l_start_column :: int
  l_end_column :: int

record Instance =
  i_ref :: string
  i_analysis_key :: string
  i_category :: string
  i_state :: string
  i_commit_sha :: string
  i_message :: Message
  i_location :: Location

record Tool =
  t_name :: string
  t_version :: string

record CodeQLAlert =
  a_number :: int
  a_rule :: Rule
  a_most_recent_instance :: Instance
  a_help :: "string option"
  a_tool :: Tool

section \<open>Detail levels and the projection (lib/types.ts)\<close>

datatype DetailLevel = Minimum | Medium | Full | Raw

text \<open>
  The result type \<open>MinimumAlert | MediumAlert | FullAlert | CodeQLAlert\<close>: a flattened
  object built by an object literal, or the alert itself.
\<close>

datatype filtered = Flat jsobj | RawAlert CodeQLAlert

text \<open>Truthiness of an optional string: present and not empty.\<close>

definition truthy :: "string option \<Rightarrow> bool" where
  "truthy v = (case v of None \<Rightarrow> False | Some s \<Rightarrow> s \<noteq> [])"

definition filterAlertByDetail :: "CodeQLAlert \<Rightarrow> DetailLevel \<Rightarrow> filtered" where
  "filterAlertByDetail alert level =
    (if level = Raw then RawAlert alert
     else if level = Full then
       (let fullAlert =
          [(''number'', JNum (a_number alert)),
           (''rule_id'', JStr (r_id (a_rule alert))),
           (''rule_name'', JStr (r_name (a_rule alert))),
           (''severity'', JStr (r_severity (a_rule alert))),
           (''message'', JStr (m_text (i_message (a_most_recent_instance alert)))),
           (''file_path'', JStr (l_path (i_location (a_most_recent_instance alert)))),
           (''start_line'', JNum (l_start_line (i_location (a_most_recent_instance alert)))),
           (''end_line'', JNum (l_end_line (i_location (a_most_recent_instance alert)))),
           (''commit_sha'', JStr (i_commit_sha (a_most_recent_instance alert))),
           (''rule_description'', JStr (r_description (a_rule alert))),
           (''start_column'', JNum (l_start_column (i_location (a_most_recent_instance alert)))),
           (''end_column'', JNum (l_end_column (i_location (a_most_recent_instance alert)))),
           (''state'', JStr (i_state (a_most_recent_instance alert))),
           (''ref'', JStr (i_ref (a_most_recent_instance alert))),
           (''analysis_key'', JStr (i_analysis_key (a_most_recent_instance alert))),
           (''category'', JStr (i_category (a_most_recent_instance alert))),
           (''tool_name'', JStr (t_name (a_tool alert))),
           (''tool_version'', JStr (t_version (a_tool alert)))]
        in Flat (if truthy (a_help alert)
                 then fullAlert @ [(''help_text'', JStr (the (a_help alert)))]
                 else fullAlert))
     else if level = Medium then
       Flat
         [(''number'', JNum (a_number alert)),
          (''rule_id'', JStr (r_id (a_rule alert))),
          (''rule_name'', JStr (r_name (a_rule alert))),
          (''severity'', JStr (r_severity (a_rule alert))),
          (''message'', JStr (m_text (i_message (a_most_recent_instance alert)))),
          (''file_path'', JStr (l_path (i_location (a_most_recent_instance alert)))),
          (''start_line'', JNum (l_start_line (i_location (a_most_recent_instance alert)))),
          (''end_line'', JNum (l_end_line (i_location (a_most_recent_instance alert)))),
          (''commit_sha'', JStr (i_commit_sha (a_most_recent_instance alert))),
          (''rule_description'', JStr (r_description (a_rule alert))),
          (''start_column'', JNum (l_start_column (i_location (a_most_recent_instance alert)))),
          (''end_column'', JNum (l_end_column (i_location (a_most_recent_instance alert)))),
          (''state'', JStr (i_state (a_most_recent_instance alert)))]
     else
       Flat
         [(''number'', JNum (a_number alert)),
          (''rule_id'', JStr (r_id (a_rule alert))),
          (''rule_name'', JStr (r_name (a_rule alert))),
          (''severity'', JStr (r_severity (a_rule alert))),
          (''message'', JStr (m_text (i_message (a_most_recent_instance alert)))),
          (''file_path'', JStr (l_path (i_location (a_most_recent_instance alert)))),
          (''start_line'', JNum (l_start_line (i_location (a_most_recent_instance alert)))),
          (''end_line'', JNum (l_end_line (i_location (a_most_recent_instance alert)))),
          (''commit_sha'', JStr (i_commit_sha (a_most_recent_instance alert)))])"

text \<open>
  The alert as a run-time object: the own properties of a \<open>CodeQLAlert\<close>, in the order
  of the interface, \<open>help\<close> among them only when it is present.
\<close>

definition alert_props :: "CodeQLAlert \<Rightarrow> jsobj" where
  "alert_props a =
    [(''number'', JNum (a_number a)),
     (''rule'', JObj
        [(''id'', JStr (r_id (a_rule a))),
         (''severity'', JStr (r_severity (a_rule a))),
         (''description'', JStr (r_description (a_rule a))),
         (''name'', JStr (r_name (a_rule a)))]),
     (''most_recent_instance'', JObj
        [(''ref'', JStr (i_ref (a_most_recent_instance a))),
         (''analysis_key'', JStr (i_analysis_key (a_most_recent_instance a))),
         (''category'', JStr (i_category (a_most_recent_instance a))),
         (''state'', JStr (i_state (a_most_recent_instance a))),
         (''commit_sha'', JStr (i_commit_sha (a_most_recent_instance a))),
         (''message'', JObj [(''text'', JStr (m_text (i_message (a_most_recent_instance a))))]),
         (''location'', JObj
            [(''path'', JStr (l_path (i_location (a_most_recent_instance a)))),
             (''start_line'', JNum (l_start_line (i_location (a_most_recent_instance a)))),
             (''end_line'', JNum (l_end_line (i_location (a_most_recent_instance a)))),
             (''start_column'', JNum (l_start_column (i_location (a_most_recent_instance a)))),
             (''end_column'', JNum (l_end_column (i_location (a_most_recent_instance a))))])])]
    @ (case a_help a of None \<Rightarrow> [] | Some h \<Rightarrow> [(''help'', JStr h)])
    @ [(''tool'', JObj
        [(''name'', JStr (t_name (a_tool a))),
         (''version'', JStr (t_version (a_tool a)))])]"

text \<open>The own properties of a projection result, whichever shape it has.\<close>

definition props :: "filtered \<Rightarrow> jsobj" where
  "props f = (case f of Flat obj \<Rightarrow> obj | RawAlert a \<Rightarrow> alert_props a)"

text \<open>The field set of a value: the names of its own properties.\<close>

definition field_set :: "filtered \<Rightarrow> string set" where
  "field_set f = set (map fst (props f))"

text \<open>The operator \<open>k in obj\<close> and the property read \<open>obj.k\<close> (\<open>undefined\<close> when absent).\<close>

definition has :: "string \<Rightarrow> filtered \<Rightarrow> bool" where
  "has k f = (k \<in> set (map fst (props f)))"

definition get_prop :: "filtered \<Rightarrow> string \<Rightarrow> jsval" where
  "get_prop f k = (case map_of (props f) k of None \<Rightarrow> JUndefined | Some v \<Rightarrow> v)"

subsection \<open>The field sets of the data model\<close>

text \<open>The three shapes as the data model words them, each extending the one before.\<close>

definition minimum_fields :: "string set" where
  "minimum_fields =
    {''number'', ''rule_id'', ''rule_name'', ''severity'', ''message'', ''file_path'',
     ''start_line'', ''end_line'', ''commit_sha''}"

definition medium_fields :: "string set" where
  "medium_fields =
    minimum_fields \<union> {''rule_description'', ''start_column'', ''end_column'', ''state''}"

definition full_fields :: "bool \<Rightarrow> string set" where
  "full_fields with_help =
    medium_fields \<union> {''ref'', ''analysis_key'', ''category'', ''tool_name'', ''tool_version''}
      \<union> (if with_help then {''help_text''} else {})"

definition level_str :: "DetailLevel \<Rightarrow> string" where
  "level_str l =
    (case l of Minimum \<Rightarrow> ''minimum'' | Medium \<Rightarrow> ''medium'' | Full \<Rightarrow> ''full'' | Raw \<Rightarrow> ''raw'')"

section \<open>The JSON encoder (formatters/json.ts)\<close>

definition formatAsJSON :: "CodeQLAlert list \<Rightarrow> DetailLevel \<Rightarrow> string" where
  "formatAsJSON alerts detailLevel =
    (let filteredAlerts = map (\<lambda>alert. filterAlertByDetail alert detailLevel) alerts
     in JSON_stringify_array (map props filteredAlerts))"

section \<open>The plain-text encoder (formatters/text.ts)\<close>

text \<open>The lines one pass of the loop pushes for one alert.\<close>

definition text_block :: "DetailLevel \<Rightarrow> CodeQLAlert \<Rightarrow> string list" where
  "text_block detailLevel alert =
    (let filtered = filterAlertByDetail alert detailLevel
     in if detailLevel = Raw then
          [JSON_stringify (props filtered), replicate 80 CHR ''-'' @ NL]
        else
          [''Alert #'' @ to_string (get_prop filtered ''number''),
           ''Rule: '' @ to_string (get_prop filtered ''rule_id''),
           ''Name: '' @ to_string (get_prop filtered ''rule_name''),
           ''Severity: '' @ to_string (get_prop filtered ''severity'')]
          @ (if has ''rule_description'' filtered
             then [''Description: '' @ to_string (get_prop filtered ''rule_description'')] else [])
          @ ['''',
             ''Location:'',
             ''  File: '' @ to_string (get_prop filtered ''file_path''),
             ''  Lines: '' @ to_string (get_prop filtered ''start_line'') @ ''-'' @ to_string (get_prop filtered ''end_line'')]
          @ (if has ''start_column'' filtered
             then [''  Columns: '' @ to_string (get_prop filtered ''start_column'') @ ''-'' @ to_string (get_prop filtered ''end_column'')] else [])
          @ ['''',
             ''Message:'',
             ''  '' @ to_string (get_prop filtered ''message''),
             '''',
             ''Commit: '' @ to_string (get_prop filtered ''commit_sha'')]
          @ (if has ''state'' filtered
             then [''State: '' @ to_string (get_prop filtered ''state'')] else [])
          @ [replicate 80 CHR ''-'' @ NL])"

text \<open>The array \<open>lines\<close> when the loop has ended, and the string returned.\<close>

definition formatAsText_lines :: "CodeQLAlert list \<Rightarrow> DetailLevel \<Rightarrow> string list" where
  "formatAsText_lines alerts detailLevel =
    foldl (\<lambda>lines alert. lines @ text_block detailLevel alert)
      [''CodeQL Security Scan Report'',
       ''Total Alerts: '' @ digits (length alerts),
       ''Detail Level: '' @ level_str detailLevel,
       replicate 80 CHR ''='' @ NL]
      alerts"

definition formatAsText :: "CodeQLAlert list \<Rightarrow> DetailLevel \<Rightarrow> string" where
  "formatAsText alerts detailLevel = join NL (formatAsText_lines alerts detailLevel)"

section \<open>The markdown encoder (formatters/markdown.ts)\<close>

subsection \<open>The table layout\<close>

text \<open>\<open>row[i]?.length || 0\<close> and \<open>row[i] || ''\<close> on an array read.\<close>

definition cell_length :: "string option \<Rightarrow> nat" where
  "cell_length c = (case c of None \<Rightarrow> 0 | Some s \<Rightarrow> length s)"

definition or_empty :: "string option \<Rightarrow> string" where
  "or_empty c = (case c of None \<Rightarrow> [] | Some s \<Rightarrow> if s \<noteq> [] then s else [])"

text \<open>\<open>Math.max(header.length, ...)\<close> for every header, by its index.\<close>

definition columnWidths :: "string list \<Rightarrow> string list list \<Rightarrow> nat list" where
  "columnWidths headers rows =
    map (\<lambda>(i, header). fold max (map (\<lambda>row. cell_length (at row i)) rows) (length header))
      (enumerate 0 headers)"

text \<open>\<open>Array.from({ length: headers.length }, (_, i) => row[i] || '')\<close>.\<close>

definition paddedRow :: "string list \<Rightarrow> string list \<Rightarrow> string list" where
  "paddedRow headers row = map (\<lambda>i. or_empty (at row i)) [0..<length headers]"

text \<open>
  \<open>cells.map((cell, i) => cell.padEnd(widths[i]))\<close>; a width read beyond the end is
  \<open>undefined\<close>, which pads nothing.
\<close>

definition pad_cells :: "nat list \<Rightarrow> string list \<Rightarrow> string list" where
  "pad_cells widths cells =
    map (\<lambda>(i, cell). padEnd cell (case at widths i of None \<Rightarrow> 0 | Some w \<Rightarrow> w))
      (enumerate 0 cells)"

definition generateMarkdownTable :: "string list list \<Rightarrow> string" where
  "generateMarkdownTable data =
    (case data of
       [] \<Rightarrow> []
     | headers # rows \<Rightarrow>
        (let widths = columnWidths headers rows;
             headerRow = join '' | '' (pad_cells widths headers);
             lines0 = [''| '' @ headerRow @ '' |''];
             separator = join '' | '' (map (\<lambda>width. replicate width CHR ''-'') widths);
             lines1 = lines0 @ [''| '' @ separator @ '' |''];
             lines2 = foldl (\<lambda>lines row.
                        let dataRow = join '' | '' (pad_cells widths (paddedRow headers row))
                        in lines @ [''| '' @ dataRow @ '' |'']) lines1 rows
         in join NL lines2))"

subsection \<open>The severity summary\<close>

text \<open>
  The counter object starts as \<open>{}\<close>. A read of a key it does not own falls through to
  \<open>Object.prototype\<close>, where the two lower-case names \<open>constructor\<close> and \<open>__proto__\<close>
  live: the first is a function, the second the prototype object, and \<open>+ 1\<close> appends to
  their string form. A write to \<open>__proto__\<close> with a string is ignored.
\<close>

definition or_zero_plus_one :: "jsval \<Rightarrow> jsval" where
  "or_zero_plus_one v =
    (case v of
       JUndefined \<Rightarrow> JNum 1
     | JNum n \<Rightarrow> JNum (n + 1)
     | JStr s \<Rightarrow> (if s = [] then JNum 1 else JStr (s @ ''1''))
     | JObj ps \<Rightarrow> JStr (''[object Object]'' @ ''1''))"

definition next_count :: "jsobj \<Rightarrow> string \<Rightarrow> jsval" where
  "next_count acc severity =
    (case map_of acc severity of
       Some v \<Rightarrow> or_zero_plus_one v
     | None \<Rightarrow>
        (if severity = ''constructor'' then JStr (''function Object() { [native code] }'' @ ''1'')
         else if severity = ''__proto__'' then JStr (''[object Object]'' @ ''1'')
         else JNum 1))"

fun set_prop :: "jsobj \<Rightarrow> string \<Rightarrow> jsval \<Rightarrow> jsobj" where
  "set_prop [] k v = [(k, v)]"
| "set_prop ((k', v') # ps) k v =
    (if k' = k then (k, v) # ps else (k', v') # set_prop ps k v)"

definition severityCounts :: "CodeQLAlert list \<Rightarrow> jsobj" where
  "severityCounts alerts =
    foldl (\<lambda>acc alert.
        let severity = toLowerCase (r_severity (a_rule alert))
        in if severity = ''__proto__'' then acc
           else set_prop acc severity (next_count acc severity))
      [] alerts"

text \<open>
  \<open>Object.entries\<close>: the keys that are array indices (canonical numerals below
  \<open>2^32 - 1\<close>) come first, ascending, the others follow in creation order.
\<close>

definition decimal :: "string \<Rightarrow> int" where
  "decimal k = foldl (\<lambda>n c. 10 * n + (of_char c - 48)) 0 k"

definition is_array_index :: "string \<Rightarrow> bool" where
  "is_array_index k =
    (k \<noteq> [] \<and> list_all (\<lambda>c. 48 \<le> (of_char c :: nat) \<and> (of_char c :: nat) \<le> 57) k
     \<and> (length k = 1 \<or> hd k \<noteq> CHR ''0'') \<and> decimal k < 4294967295)"

definition Object_entries :: "jsobj \<Rightarrow> (string \<times> jsval) list" where
  "Object_entries obj =
    sort_key (\<lambda>p. decimal (fst p)) (filter (\<lambda>p. is_array_index (fst p)) obj)
    @ filter (\<lambda>p. \<not> is_array_index (fst p)) obj"

definition summaryTableData :: "CodeQLAlert list \<Rightarrow> string list list" where
  "summaryTableData alerts =
    [''Severity'', ''Count'']
    # map (\<lambda>(severity, count). [severity, to_string count]) (Object_entries (severityCounts alerts))"

subsection \<open>The report\<close>

definition md_block :: "DetailLevel \<Rightarrow> CodeQLAlert \<Rightarrow> string list" where
  "md_block detailLevel alert =
    (let filtered = filterAlertByDetail alert detailLevel
     in if detailLevel = Raw then
          [''```json'', JSON_stringify (props filtered), ''```'', '''', ''---'', '''']
        else
          [''### Alert #'' @ to_string (get_prop filtered ''number'') @ '': '' @ to_string (get_prop filtered ''rule_name''),
           '''',
           ''**Rule ID:** `'' @ to_string (get_prop filtered ''rule_id'') @ ''`'',
           ''**Severity:** '' @ to_string (get_prop filtered ''severity'')]
          @ (if has ''rule_description'' filtered
             then [''**Description:** '' @ to_string (get_prop filtered ''rule_description'')] else [])
          @ ['''',
             ''#### Location'',
             '''',
             ''- **File:** `'' @ to_string (get_prop filtered ''file_path'') @ ''`'',
             ''- **Lines:** '' @ to_string (get_prop filtered ''start_line'') @ ''-'' @ to_string (get_prop filtered ''end_line'')]
          @ (if has ''start_column'' filtered
             then [''- **Columns:** '' @ to_string (get_prop filtered ''start_column'') @ ''-'' @ to_string (get_prop filtered ''end_column'')] else [])
          @ ['''',
             ''#### Message'',
             '''',
             join_elem (get_prop filtered ''message''),
             '''',
             ''#### Details'',
             '''',
             ''- **Commit:** `'' @ to_string (get_prop filtered ''commit_sha'') @ ''`'']
          @ (if has ''state'' filtered
             then [''- **State:** '' @ to_string (get_prop filtered ''state'')] else [])
          @ (if has ''ref'' filtered
             then [''- **Reference:** '' @ to_string (get_prop filtered ''ref'')] else [])
          @ ['''', ''---'', ''''])"

text \<open>
  \<open>new Date().toISOString()\<close> reads the clock: the reading is the argument \<open>now\<close>.
\<close>

definition formatAsMarkdown_lines ::
  "string \<Rightarrow> CodeQLAlert list \<Rightarrow> string \<Rightarrow> DetailLevel \<Rightarrow> string list" where
  "formatAsMarkdown_lines now alerts repoName detailLevel =
    foldl (\<lambda>lines alert. lines @ md_block detailLevel alert)
      [''# CodeQL Security Scan Report'',
       '''',
       ''**Repository:** '' @ repoName,
       ''**Total Alerts:** '' @ digits (length alerts),
       ''**Detail Level:** '' @ level_str detailLevel,
       ''**Generated:** '' @ now,
       '''',
       ''---'',
       '''',
       ''## Summary by Severity'',
       '''',
       generateMarkdownTable (summaryTableData alerts),
       '''',
       ''## Detailed Alerts'',
       '''']
      alerts"

definition formatAsMarkdown ::
  "string \<Rightarrow> CodeQLAlert list \<Rightarrow> string \<Rightarrow> DetailLevel \<Rightarrow> string" where
  "formatAsMarkdown now alerts repoName detailLevel =
    join NL (formatAsMarkdown_lines now alerts repoName detailLevel)"

section \<open>The SARIF encoder (formatters/sarif.ts)\<close>

definition mapSeverityToLevel :: "string \<Rightarrow> string" where
  "mapSeverityToLevel severity =
    (let s = toLowerCase severity
     in if s = ''error'' \<or> s = ''critical'' then ''error''
        else if s = ''warning'' \<or> s = ''medium'' then ''warning''
        else ''note'')"

text \<open>
  What the encoder hands to the SARIF builder library: the options of one
  \<open>SarifResultBuilder.initSimple\<close> call per alert, and those of the run.
\<close>

record sarif_result =
  ruleId :: jsval
  level :: string
  messageText :: jsval
  fileUri :: jsval
  startLine :: jsval
  startColumn :: jsval

record sarif_run =
  toolDriverName :: string
  toolDriverVersion :: jsval
  results :: "sarif_result list"

datatype js_error = TypeError | Error string

text \<open>
  One pass of the loop. \<open>mapSeverityToLevel\<close> calls \<open>toLowerCase\<close> on its argument,
  which throws on anything but a string.
\<close>

definition sarif_result_of :: "DetailLevel \<Rightarrow> CodeQLAlert \<Rightarrow> js_error + sarif_result" where
  "sarif_result_of detailLevel alert =
    (let filtered = filterAlertByDetail alert detailLevel;
         startColumn = (if has ''start_column'' filtered
                        then get_prop filtered ''start_column'' else JNum 1)
     in case get_prop filtered ''severity'' of
          JStr severity \<Rightarrow>
            Inr \<lparr>ruleId = get_prop filtered ''rule_id'',
                 level = mapSeverityToLevel severity,
                 messageText = get_prop filtered ''message'',
                 fileUri = get_prop filtered ''file_path'',
                 startLine = get_prop filtered ''start_line'',
                 startColumn = startColumn\<rparr>
        | _ \<Rightarrow> Inl TypeError)"

fun add_results ::
  "DetailLevel \<Rightarrow> sarif_result list \<Rightarrow> CodeQLAlert list \<Rightarrow> js_error + sarif_result list" where
  "add_results detailLevel rs [] = Inr rs"
| "add_results detailLevel rs (alert # alerts) =
    (case sarif_result_of detailLevel alert of
       Inl e \<Rightarrow> Inl e
     | Inr r \<Rightarrow> add_results detailLevel (rs @ [r]) alerts)"

definition toolVersion :: "CodeQLAlert list \<Rightarrow> DetailLevel \<Rightarrow> jsval" where
  "toolVersion alerts detailLevel =
    (if detailLevel = Full \<and> length alerts > 0 then
       (let fullAlert = filterAlertByDetail (alerts ! 0) Full
        in if has ''tool_version'' fullAlert
           then get_prop fullAlert ''tool_version'' else JStr ''1.0.0'')
     else JStr ''1.0.0'')"

text \<open>
  The document before the library serialises it: the raw level returns the alerts as
  JSON and builds no run.
\<close>

datatype sarif_doc = RawJson string | SarifLog sarif_run

definition formatAsSARIF_doc :: "CodeQLAlert list \<Rightarrow> DetailLevel \<Rightarrow> js_error + sarif_doc" where
  "formatAsSARIF_doc alerts detailLevel =
    (if detailLevel = Raw then Inr (RawJson (JSON_stringify_array (map alert_props alerts)))
     else
       (case add_results detailLevel [] alerts of
          Inl e \<Rightarrow> Inl e
        | Inr rs \<Rightarrow>
            Inr (SarifLog \<lparr>toolDriverName = ''CodeQL'',
                           toolDriverVersion = toolVersion alerts detailLevel,
                           results = rs\<rparr>)))"

text \<open>
  The string returned, \<open>buildSarifJsonString\<close> of the library being the parameter
  \<open>build\<close>.
\<close>

definition formatAsSARIF ::
  "(sarif_run \<Rightarrow> string) \<Rightarrow> CodeQLAlert list \<Rightarrow> string \<Rightarrow> DetailLevel \<Rightarrow> js_error + string" where
  "formatAsSARIF build alerts repoName detailLevel =
    (case formatAsSARIF_doc alerts detailLevel of
       Inl e \<Rightarrow> Inl e
     | Inr (RawJson s) \<Rightarrow> Inr s
     | Inr (SarifLog run) \<Rightarrow> Inr (build run))"

section \<open>The encoder switch (cli.ts)\<close>

text \<open>
  The \<open>switch\<close> of \<open>main\<close> that picks the encoder by the \<open>--format\<close> option, with the
  clock reading \<open>now\<close> that the process has at hand while it runs.
\<close>

definition format_switch ::
  "(sarif_run \<Rightarrow> string) \<Rightarrow> string \<Rightarrow> string \<Rightarrow> CodeQLAlert list \<Rightarrow> string \<Rightarrow> DetailLevel
    \<Rightarrow> js_error + string" where
  "format_switch build now format alerts repoName detail =
    (if format = ''json'' then Inr (formatAsJSON alerts detail)
     else if format = ''sarif'' then formatAsSARIF build alerts repoName detail
     else if format = ''txt'' then Inr (formatAsText alerts detail)
     else if format = ''md'' then Inr (formatAsMarkdown now alerts repoName detail)
     else Inl (Error (''Unsupported format: '' @ format)))"

section \<open>The table layout as the design words it\<close>

text \<open>
  A missing cell counts as the empty string; a column is as wide as the longest of its
  header and its cells; a row is its cells between \<open>| \<close> and \<open> |\<close>, joined by \<open> | \<close>.
\<close>

definition spec_cell :: "string list \<Rightarrow> nat \<Rightarrow> string" where
  "spec_cell row i = (if i < length row then row ! i else [])"

definition spec_width :: "string list \<Rightarrow> string list list \<Rightarrow> nat \<Rightarrow> nat" where
  "spec_width headers rows i =
    Max (set (length (headers ! i) # map (\<lambda>row. length (spec_cell row i)) rows))"

definition spec_line :: "string list \<Rightarrow> string" where
  "spec_line cells = ''| '' @ join '' | '' cells @ '' |''"

section \<open>The alert of the test suite\<close>

definition mockAlert :: CodeQLAlert where
  "mockAlert =
    \<lparr>a_number = 1,
     a_rule = \<lparr>r_id = ''js/sql-injection'', r_severity = ''error'',
               r_description = ''SQL injection vulnerability'', r_name = ''SQL Injection''\<rparr>,
     a_most_recent_instance =
       \<lparr>i_ref = ''refs/heads/main'', i_analysis_key = ''test-analysis'',
        i_category = ''security'', i_state = ''open'', i_commit_sha = ''abc123'',
        i_message = \<lparr>m_text = ''Potential SQL injection detected''\<rparr>,
        i_location = \<lparr>l_path = ''src/database.js'', l_start_line = 10, l_end_line = 12,
                      l_start_column = 5, l_end_column = 20\<rparr>\<rparr>,
     a_help = None,
     a_tool = \<lparr>t_name = ''CodeQL'', t_version = ''2.0.0''\<rparr>\<rparr>"

section \<open>Properties of the projection\<close>

text \<open>
  C1. At each of the levels minimum, medium and full the projection carries exactly the
  field set the data model gives for that level, every field once, \<open>help_text\<close> being
  part of the full shape exactly when the alert's \<open>help\<close> is truthy; and the field sets
  are nested, minimum within medium within full.
\<close>

theorem filterAlertByDetail_field_sets:
  "field_set (filterAlertByDetail a Minimum) = minimum_fields
   \<and> field_set (filterAlertByDetail a Medium) = medium_fields
   \<and> field_set (filterAlertByDetail a Full) = full_fields (truthy (a_help a))
   \<and> field_set (filterAlertByDetail a Minimum) \<subseteq> field_set (filterAlertByDetail a Medium)
   \<and> field_set (filterAlertByDetail a Medium) \<subseteq> field_set (filterAlertByDetail a Full)
   \<and> distinct (map fst (props (filterAlertByDetail a Minimum)))
   \<and> distinct (map fst (props (filterAlertByDetail a Medium)))
   \<and> distinct (map fst (props (filterAlertByDetail a Full)))"
  by (simp add: field_set_def filterAlertByDetail_def props_def minimum_fields_def
      medium_fields_def full_fields_def Let_def insert_commute)

text \<open>
  C2. At the raw level the projection returns the alert it was given, unchanged: its
  properties are those of the alert, nested as they were.
\<close>

theorem filterAlertByDetail_raw_identity:
  "filterAlertByDetail a Raw = RawAlert a
   \<and> props (filterAlertByDetail a Raw) = alert_props a"
  by (simp add: filterAlertByDetail_def props_def)

text \<open>
  C3. The full projection carries \<open>help_text\<close> if and only if the alert's \<open>help\<close> is
  present and not the empty string, and then with that string as its value; otherwise
  the property does not exist at all, so a read of it gives \<open>undefined\<close>.
\<close>

theorem filterAlertByDetail_help_text:
  "(''help_text'' \<in> field_set (filterAlertByDetail a Full))
     = (\<exists>s. a_help a = Some s \<and> s \<noteq> [])
   \<and> map_of (props (filterAlertByDetail a Full)) ''help_text''
     = (case a_help a of None \<Rightarrow> None | Some s \<Rightarrow> if s = [] then None else Some (JStr s))
   \<and> get_prop (filterAlertByDetail a Full) ''help_text''
     = (case a_help a of None \<Rightarrow> JUndefined | Some s \<Rightarrow> if s = [] then JUndefined else JStr s)"
  by (cases "a_help a")
     (simp_all add: field_set_def filterAlertByDetail_def props_def get_prop_def truthy_def Let_def)

section \<open>Properties of the table layout\<close>

lemma foldl_push_blocks:
  "foldl (\<lambda>lines x. lines @ f x) init xs = init @ concat (map f xs)"
  by (induction xs arbitrary: init) simp_all

lemma foldl_push_one:
  "foldl (\<lambda>lines x. lines @ [g x]) init xs = init @ map g xs"
  by (induction xs arbitrary: init) simp_all

lemma cell_length_at: "cell_length (at row i) = length (spec_cell row i)"
  by (simp add: cell_length_def at_def spec_cell_def)

lemma or_empty_at: "or_empty (at row i) = spec_cell row i"
  by (simp add: or_empty_def at_def spec_cell_def)

lemma map_enumerate_index:
  "map (\<lambda>(i, x). f i x) (enumerate 0 xs) = map (\<lambda>i. f i (xs ! i)) [0..<length xs]"
  by (rule nth_equalityI) (simp_all add: nth_enumerate_eq)

lemma columnWidths_spec:
  "columnWidths headers rows = map (spec_width headers rows) [0..<length headers]"
  unfolding columnWidths_def map_enumerate_index
  by (simp add: spec_width_def cell_length_at Max.set_eq_fold comp_def del: set_simps)

lemma paddedRow_spec: "paddedRow headers row = map (spec_cell row) [0..<length headers]"
  by (simp add: paddedRow_def or_empty_at)

lemma pad_cells_index:
  "length cells = n \<Longrightarrow>
   pad_cells (map w [0..<n]) cells = map (\<lambda>i. padEnd (cells ! i) (w i)) [0..<n]"
  unfolding pad_cells_def map_enumerate_index
  by (auto simp add: at_def)

lemma generateMarkdownTable_rows:
  "generateMarkdownTable (headers # rows) =
    join NL
      (spec_line (pad_cells (columnWidths headers rows) headers)
       # spec_line (map (\<lambda>width. replicate width CHR ''-'') (columnWidths headers rows))
       # map (\<lambda>row. spec_line (pad_cells (columnWidths headers rows) (paddedRow headers row)))
           rows)"
  by (simp add: generateMarkdownTable_def Let_def foldl_push_one spec_line_def)

lemma length_padEnd: "length (padEnd s w) = max (length s) w"
  by (simp add: padEnd_def)

lemma spec_width_ge_header: "length (headers ! i) \<le> spec_width headers rows i"
  by (simp add: spec_width_def)

lemma spec_width_ge_cell:
  "row \<in> set rows \<Longrightarrow> length (spec_cell row i) \<le> spec_width headers rows i"
  unfolding spec_width_def by (rule Max_ge) auto

text \<open>
  C5. The table of no rows at all is the empty string. Otherwise the width of a column
  is the greatest length among its header and the cells at its position, a cell a short
  row lacks counting as the empty string; the table is the header line, the line of
  dashes and one line per data row, every cell (the empty string for a missing one)
  padded with spaces at its end to exactly the width of its column. A short row is
  rendered like any other: the function has no failing case.
\<close>

theorem generateMarkdownTable_layout:
  "generateMarkdownTable [] = []
   \<and> generateMarkdownTable (headers # rows) =
      join NL
        (spec_line (map (\<lambda>i. padEnd (headers ! i) (spec_width headers rows i))
                      [0..<length headers])
         # spec_line (map (\<lambda>i. replicate (spec_width headers rows i) CHR ''-'')
                        [0..<length headers])
         # map (\<lambda>row. spec_line (map (\<lambda>i. padEnd (spec_cell row i) (spec_width headers rows i))
                                    [0..<length headers])) rows)
   \<and> (\<forall>i < length headers.
         length (padEnd (headers ! i) (spec_width headers rows i)) = spec_width headers rows i)
   \<and> (\<forall>row \<in> set rows. \<forall>i < length headers.
         length (padEnd (spec_cell row i) (spec_width headers rows i))
           = spec_width headers rows i)"
proof (intro conjI allI ballI impI)
  show "generateMarkdownTable [] = []"
    by (simp add: generateMarkdownTable_def)
next
  have h: "pad_cells (columnWidths headers rows) headers
      = map (\<lambda>i. padEnd (headers ! i) (spec_width headers rows i)) [0..<length headers]"
    unfolding columnWidths_spec by (rule pad_cells_index) simp
  have r: "pad_cells (columnWidths headers rows) (paddedRow headers row)
      = map (\<lambda>i. padEnd (spec_cell row i) (spec_width headers rows i)) [0..<length headers]"
    for row
  proof -
    have "pad_cells (columnWidths headers rows) (paddedRow headers row)
      = map (\<lambda>i. padEnd (paddedRow headers row ! i) (spec_width headers rows i))
          [0..<length headers]"
      unfolding columnWidths_spec by (rule pad_cells_index) (simp add: paddedRow_def)
    also have "\<dots>
      = map (\<lambda>i. padEnd (spec_cell row i) (spec_width headers rows i)) [0..<length headers]"
      by (simp add: paddedRow_spec)
    finally show ?thesis .
  qed
  show "generateMarkdownTable (headers # rows) =
      join NL
        (spec_line (map (\<lambda>i. padEnd (headers ! i) (spec_width headers rows i))
                      [0..<length headers])
         # spec_line (map (\<lambda>i. replicate (spec_width headers rows i) CHR ''-'')
                        [0..<length headers])
         # map (\<lambda>row. spec_line (map (\<lambda>i. padEnd (spec_cell row i) (spec_width headers rows i))
                                    [0..<length headers])) rows)"
    unfolding generateMarkdownTable_rows h r
    by (simp add: columnWidths_spec comp_def)
next
  fix i assume "i < length headers"
  show "length (padEnd (headers ! i) (spec_width headers rows i)) = spec_width headers rows i"
    using spec_width_ge_header [of headers i rows] by (simp add: length_padEnd)
next
  fix row i assume "row \<in> set rows" "i < length headers"
  then show "length (padEnd (spec_cell row i) (spec_width headers rows i))
      = spec_width headers rows i"
    using spec_width_ge_cell [of row rows i headers] by (simp add: length_padEnd)
qed

text \<open>
  The table of the test suite with a short row: the City cell of Alice's row is four
  spaces, the width of its column.
\<close>

theorem generateMarkdownTable_layout_witness:
  "[''Alice'', ''30''] \<in> set [[''Alice'', ''30''], [''Bob'', ''25'', ''LA'']]
   \<and> (2::nat) < length [''Name'', ''Age'', ''City'']
   \<and> spec_width [''Name'', ''Age'', ''City''] [[''Alice'', ''30''], [''Bob'', ''25'', ''LA'']] 2 = 4
   \<and> length (padEnd (spec_cell [''Alice'', ''30''] 2)
        (spec_width [''Name'', ''Age'', ''City''] [[''Alice'', ''30''], [''Bob'', ''25'', ''LA'']] 2))
      = spec_width [''Name'', ''Age'', ''City''] [[''Alice'', ''30''], [''Bob'', ''25'', ''LA'']] 2
   \<and> generateMarkdownTable
        [[''Name'', ''Age'', ''City''], [''Alice'', ''30''], [''Bob'', ''25'', ''LA'']]
      = ''| Name  | Age | City |'' @ NL @ ''| ----- | --- | ---- |'' @ NL
        @ ''| Alice | 30  |      |'' @ NL @ ''| Bob   | 25  | LA   |''"
proof -
  note t = generateMarkdownTable_layout
    [of "[''Name'', ''Age'', ''City'']" "[[''Alice'', ''30''], [''Bob'', ''25'', ''LA'']]"]
  have m: "[''Alice'', ''30''] \<in> set [[''Alice'', ''30''], [''Bob'', ''25'', ''LA'']]"
    by simp
  have i: "(2::nat) < length [''Name'', ''Age'', ''City'']"
    by simp
  have w: "spec_width [''Name'', ''Age'', ''City'']
      [[''Alice'', ''30''], [''Bob'', ''25'', ''LA'']] 2 = 4"
    by code_simp
  note c = t [THEN conjunct2, THEN conjunct2, THEN conjunct2, THEN bspec, OF m,
    THEN spec, THEN mp, OF i]
  have g: "generateMarkdownTable
        [[''Name'', ''Age'', ''City''], [''Alice'', ''30''], [''Bob'', ''25'', ''LA'']]
      = ''| Name  | Age | City |'' @ NL @ ''| ----- | --- | ---- |'' @ NL
        @ ''| Alice | 30  |      |'' @ NL @ ''| Bob   | 25  | LA   |''"
    unfolding t [THEN conjunct2, THEN conjunct1] by code_simp
  from m i w c g show ?thesis
    by (intro conjI)
qed

lemma at_take: "i < n \<Longrightarrow> at (take n row) i = at row i"
  by (simp add: at_def)

lemma paddedRow_take: "paddedRow headers (take (length headers) row) = paddedRow headers row"
  by (simp add: paddedRow_def at_take)

lemma columnWidths_take:
  "columnWidths headers (map (take (length headers)) rows) = columnWidths headers rows"
  unfolding columnWidths_def map_enumerate_index
  by (simp add: at_take comp_def)

lemma length_columnWidths: "length (columnWidths headers rows) = length headers"
  by (simp add: columnWidths_def)

lemma length_paddedRow: "length (paddedRow headers row) = length headers"
  by (simp add: paddedRow_def)

lemma length_pad_cells: "length (pad_cells widths cells) = length cells"
  by (simp add: pad_cells_def)

lemma generateMarkdownTable_take:
  "generateMarkdownTable (headers # map (take (length headers)) rows)
     = generateMarkdownTable (headers # rows)"
  by (simp add: generateMarkdownTable_rows columnWidths_take paddedRow_take comp_def)

lemma pad_cells_headers:
  "pad_cells (columnWidths headers rows) headers
     = map (\<lambda>i. padEnd (headers ! i) (spec_width headers rows i)) [0..<length headers]"
  unfolding columnWidths_spec by (rule pad_cells_index) simp

lemma pad_cells_paddedRow:
  "pad_cells (columnWidths headers rows) (paddedRow headers row)
     = map (\<lambda>i. padEnd (spec_cell row i) (spec_width headers rows i)) [0..<length headers]"
proof -
  have "pad_cells (columnWidths headers rows) (paddedRow headers row)
      = map (\<lambda>i. padEnd (paddedRow headers row ! i) (spec_width headers rows i))
          [0..<length headers]"
    unfolding columnWidths_spec by (rule pad_cells_index) (simp add: paddedRow_def)
  also have "\<dots>
      = map (\<lambda>i. padEnd (spec_cell row i) (spec_width headers rows i)) [0..<length headers]"
    by (simp add: paddedRow_spec)
  finally show ?thesis .
qed

lemma generateMarkdownTable_cells:
  "generateMarkdownTable (headers # rows) =
      join NL
        (spec_line (map (\<lambda>i. padEnd (headers ! i) (spec_width headers rows i))
                      [0..<length headers])
         # spec_line (map (\<lambda>i. replicate (spec_width headers rows i) CHR ''-'')
                        [0..<length headers])
         # map (\<lambda>row. spec_line (map (\<lambda>i. padEnd (spec_cell row i) (spec_width headers rows i))
                                    [0..<length headers])) rows)"
  unfolding generateMarkdownTable_rows pad_cells_headers pad_cells_paddedRow
  by (simp add: columnWidths_spec comp_def)

lemma paddedRow_prefix:
  "paddedRow headers row
     = take (length headers) row @ replicate (length headers - length row) []"
  unfolding paddedRow_spec
  by (rule nth_equalityI) (auto simp add: spec_cell_def nth_append)

lemma length_join:
  "length (join sep xs) = sum_list (map length xs) + length sep * (length xs - 1)"
  by (induction sep xs rule: join.induct) simp_all

lemma length_spec_line:
  "length (spec_line cells) = sum_list (map length cells) + 3 * (length cells - 1) + 4"
  by (simp add: spec_line_def length_join)

lemma length_spec_line_padded:
  assumes "\<And>i. i < n \<Longrightarrow> length (c i) \<le> w i"
  shows "length (spec_line (map (\<lambda>i. padEnd (c i) (w i)) [0..<n]))
     = sum_list (map w [0..<n]) + 3 * (n - 1) + 4"
proof -
  have "map length (map (\<lambda>i. padEnd (c i) (w i)) [0..<n]) = map w [0..<n]"
    using assms by (simp add: length_padEnd max_def)
  then show ?thesis
    by (simp add: length_spec_line del: map_map)
qed

lemma length_spec_line_dashes:
  "length (spec_line (map (\<lambda>i. replicate (w i) c) [0..<n]))
     = sum_list (map w [0..<n]) + 3 * (n - 1) + 4"
  by (simp add: length_spec_line comp_def)

text \<open>
  C10. Cells beyond the header's length are dropped. The table is the header line, the
  line of dashes and one line per data row, each line being exactly as many cells as
  the header has, written out here: the cells of a data line are those of the row cut
  to the header's length (the empty string where the row is short), and the widths are
  those of the rows so cut, so a cell beyond the header neither appears nor widens a
  column. Every line of the table therefore has the same length, the sum of the
  widths and the separators of as many cells as the header has, and the table is the
  one of the rows cut to the header's length. The cell lists the function joins into
  these lines, the padded header, the dashes and every padded row, have the header's
  length.
\<close>

theorem generateMarkdownTable_truncates:
  "generateMarkdownTable (headers # rows) =
      join NL
        (spec_line
           (map (\<lambda>i. padEnd (headers ! i)
                        (spec_width headers (map (take (length headers)) rows) i))
              [0..<length headers])
         # spec_line
             (map (\<lambda>i. replicate (spec_width headers (map (take (length headers)) rows) i)
                          CHR ''-'')
                [0..<length headers])
         # map (\<lambda>row. spec_line
                  (map (\<lambda>i. padEnd (spec_cell (take (length headers) row) i)
                               (spec_width headers (map (take (length headers)) rows) i))
                     [0..<length headers])) rows)
   \<and> length (spec_line
         (map (\<lambda>i. padEnd (headers ! i)
                      (spec_width headers (map (take (length headers)) rows) i))
            [0..<length headers]))
       = sum_list (map (spec_width headers (map (take (length headers)) rows))
                     [0..<length headers])
         + 3 * (length headers - 1) + 4
   \<and> length (spec_line
         (map (\<lambda>i. replicate (spec_width headers (map (take (length headers)) rows) i)
                      CHR ''-'')
            [0..<length headers]))
       = sum_list (map (spec_width headers (map (take (length headers)) rows))
                     [0..<length headers])
         + 3 * (length headers - 1) + 4
   \<and> (\<forall>row \<in> set rows.
         length (spec_line
           (map (\<lambda>i. padEnd (spec_cell (take (length headers) row) i)
                        (spec_width headers (map (take (length headers)) rows) i))
              [0..<length headers]))
         = sum_list (map (spec_width headers (map (take (length headers)) rows))
                       [0..<length headers])
           + 3 * (length headers - 1) + 4)
   \<and> paddedRow headers row
       = take (length headers) row @ replicate (length headers - length row) []
   \<and> generateMarkdownTable (headers # rows) =
       join NL
         (spec_line (pad_cells (columnWidths headers rows) headers)
          # spec_line (map (\<lambda>width. replicate width CHR ''-'') (columnWidths headers rows))
          # map (\<lambda>row. spec_line (pad_cells (columnWidths headers rows) (paddedRow headers row)))
              rows)
   \<and> generateMarkdownTable (headers # map (take (length headers)) rows)
       = generateMarkdownTable (headers # rows)
   \<and> columnWidths headers (map (take (length headers)) rows) = columnWidths headers rows
   \<and> paddedRow headers (take (length headers) row) = paddedRow headers row
   \<and> length (columnWidths headers rows) = length headers
   \<and> length (pad_cells (columnWidths headers rows) headers) = length headers
   \<and> length (pad_cells (columnWidths headers rows) (paddedRow headers row)) = length headers"
proof (intro conjI ballI)
  have "generateMarkdownTable (headers # rows)
      = generateMarkdownTable (headers # map (take (length headers)) rows)"
    by (simp add: generateMarkdownTable_take)
  also have "\<dots> =
      join NL
        (spec_line
           (map (\<lambda>i. padEnd (headers ! i)
                        (spec_width headers (map (take (length headers)) rows) i))
              [0..<length headers])
         # spec_line
             (map (\<lambda>i. replicate (spec_width headers (map (take (length headers)) rows) i)
                          CHR ''-'')
                [0..<length headers])
         # map (\<lambda>row. spec_line
                  (map (\<lambda>i. padEnd (spec_cell (take (length headers) row) i)
                               (spec_width headers (map (take (length headers)) rows) i))
                     [0..<length headers])) rows)"
    unfolding generateMarkdownTable_cells by (simp add: comp_def)
  finally show "generateMarkdownTable (headers # rows) =
      join NL
        (spec_line
           (map (\<lambda>i. padEnd (headers ! i)
                        (spec_width headers (map (take (length headers)) rows) i))
              [0..<length headers])
         # spec_line
             (map (\<lambda>i. replicate (spec_width headers (map (take (length headers)) rows) i)
                          CHR ''-'')
                [0..<length headers])
         # map (\<lambda>row. spec_line
                  (map (\<lambda>i. padEnd (spec_cell (take (length headers) row) i)
                               (spec_width headers (map (take (length headers)) rows) i))
                     [0..<length headers])) rows)" .
next
  show "length (spec_line
         (map (\<lambda>i. padEnd (headers ! i)
                      (spec_width headers (map (take (length headers)) rows) i))
            [0..<length headers]))
       = sum_list (map (spec_width headers (map (take (length headers)) rows))
                     [0..<length headers])
         + 3 * (length headers - 1) + 4"
    by (rule length_spec_line_padded) (rule spec_width_ge_header)
next
  show "length (spec_line
         (map (\<lambda>i. replicate (spec_width headers (map (take (length headers)) rows) i)
                      CHR ''-'')
            [0..<length headers]))
       = sum_list (map (spec_width headers (map (take (length headers)) rows))
                     [0..<length headers])
         + 3 * (length headers - 1) + 4"
    by (rule length_spec_line_dashes)
next
  fix r assume "r \<in> set rows"
  then have m: "take (length headers) r \<in> set (map (take (length headers)) rows)"
    by simp
  show "length (spec_line
           (map (\<lambda>i. padEnd (spec_cell (take (length headers) r) i)
                        (spec_width headers (map (take (length headers)) rows) i))
              [0..<length headers]))
         = sum_list (map (spec_width headers (map (take (length headers)) rows))
                       [0..<length headers])
           + 3 * (length headers - 1) + 4"
    by (rule length_spec_line_padded) (rule spec_width_ge_cell [OF m])
next
  show "paddedRow headers row
       = take (length headers) row @ replicate (length headers - length row) []"
    by (rule paddedRow_prefix)
next
  show "generateMarkdownTable (headers # rows) =
       join NL
         (spec_line (pad_cells (columnWidths headers rows) headers)
          # spec_line (map (\<lambda>width. replicate width CHR ''-'') (columnWidths headers rows))
          # map (\<lambda>row. spec_line (pad_cells (columnWidths headers rows) (paddedRow headers row)))
              rows)"
    by (rule generateMarkdownTable_rows)
next
  show "generateMarkdownTable (headers # map (take (length headers)) rows)
       = generateMarkdownTable (headers # rows)"
    by (rule generateMarkdownTable_take)
next
  show "columnWidths headers (map (take (length headers)) rows) = columnWidths headers rows"
    by (rule columnWidths_take)
next
  show "paddedRow headers (take (length headers) row) = paddedRow headers row"
    by (rule paddedRow_take)
next
  show "length (columnWidths headers rows) = length headers"
    by (rule length_columnWidths)
next
  show "length (pad_cells (columnWidths headers rows) headers) = length headers"
    by (simp add: length_pad_cells)
next
  show "length (pad_cells (columnWidths headers rows) (paddedRow headers row)) = length headers"
    by (simp add: length_pad_cells length_paddedRow)
qed

text \<open>
  A table whose first data row has a third cell, longer than anything else, under a
  header of two: the cell is not rendered, the first column keeps the width of
  \<open>Alice\<close>, and every line is fifteen characters long.
\<close>

theorem generateMarkdownTable_truncates_witness:
  "[''Alice'', ''30'', ''New York City''] \<in> set [[''Alice'', ''30'', ''New York City''], [''Bob'']]
   \<and> generateMarkdownTable
        [[''Name'', ''Age''], [''Alice'', ''30'', ''New York City''], [''Bob'']]
      = ''| Name  | Age |'' @ NL @ ''| ----- | --- |'' @ NL
        @ ''| Alice | 30  |'' @ NL @ ''| Bob   |     |''
   \<and> length (spec_line
        (map (\<lambda>i. padEnd (spec_cell (take (length [''Name'', ''Age''])
                                         [''Alice'', ''30'', ''New York City'']) i)
                     (spec_width [''Name'', ''Age'']
                        (map (take (length [''Name'', ''Age'']))
                           [[''Alice'', ''30'', ''New York City''], [''Bob'']]) i))
           [0..<length [''Name'', ''Age'']]))
      = 15
   \<and> paddedRow [''Name'', ''Age''] [''Alice'', ''30'', ''New York City''] = [''Alice'', ''30'']"
proof -
  note t = generateMarkdownTable_truncates
    [of "[''Name'', ''Age'']" "[[''Alice'', ''30'', ''New York City''], [''Bob'']]"
        "[''Alice'', ''30'', ''New York City'']"]
  have m: "[''Alice'', ''30'', ''New York City'']
      \<in> set [[''Alice'', ''30'', ''New York City''], [''Bob'']]"
    by simp
  have g: "generateMarkdownTable
        [[''Name'', ''Age''], [''Alice'', ''30'', ''New York City''], [''Bob'']]
      = ''| Name  | Age |'' @ NL @ ''| ----- | --- |'' @ NL
        @ ''| Alice | 30  |'' @ NL @ ''| Bob   |     |''"
    unfolding t [THEN conjunct1] by code_simp
  have s: "sum_list (map (spec_width [''Name'', ''Age'']
              (map (take (length [''Name'', ''Age'']))
                 [[''Alice'', ''30'', ''New York City''], [''Bob'']]))
              [0..<length [''Name'', ''Age'']])
           + 3 * (length [''Name'', ''Age''] - 1) + 4 = 15"
    by code_simp
  note l = t [THEN conjunct2, THEN conjunct2, THEN conjunct2, THEN conjunct1, THEN bspec, OF m]
  have l15: "length (spec_line
        (map (\<lambda>i. padEnd (spec_cell (take (length [''Name'', ''Age''])
                                         [''Alice'', ''30'', ''New York City'']) i)
                     (spec_width [''Name'', ''Age'']
                        (map (take (length [''Name'', ''Age'']))
                           [[''Alice'', ''30'', ''New York City''], [''Bob'']]) i))
           [0..<length [''Name'', ''Age'']]))
      = 15"
    using l unfolding s .
  have p: "paddedRow [''Name'', ''Age''] [''Alice'', ''30'', ''New York City'']
      = [''Alice'', ''30'']"
    using t [THEN conjunct2, THEN conjunct2, THEN conjunct2, THEN conjunct2, THEN conjunct1]
    by simp
  from m g l15 p show ?thesis
    by (intro conjI)
qed

section \<open>Properties of the SARIF encoder\<close>

lemma toLowerCase_char_idem: "toLowerCase_char (toLowerCase_char c) = toLowerCase_char c"
proof -
  have lt: "(of_char c :: nat) < 256" by simp
  show ?thesis
    using lt by (auto simp add: toLowerCase_char_def Let_def)
qed

lemma toLowerCase_idem: "toLowerCase (toLowerCase s) = toLowerCase s"
  by (simp add: toLowerCase_def toLowerCase_char_idem)

text \<open>
  C6. The severity mapping sees its argument only through \<open>toLowerCase\<close>: a string
  that folds to \<open>error\<close> or \<open>critical\<close> maps to \<open>error\<close>, one that folds to \<open>warning\<close> or
  \<open>medium\<close> to \<open>warning\<close>, every other string to \<open>note\<close>. It has a result, one of the three
  levels, for every string, and two strings with the same folding get the same level.
\<close>

theorem mapSeverityToLevel_total:
  "(toLowerCase s = ''error'' \<or> toLowerCase s = ''critical''
      \<longrightarrow> mapSeverityToLevel s = ''error'')
   \<and> (toLowerCase s = ''warning'' \<or> toLowerCase s = ''medium''
      \<longrightarrow> mapSeverityToLevel s = ''warning'')
   \<and> (toLowerCase s \<notin> {''error'', ''critical'', ''warning'', ''medium''}
      \<longrightarrow> mapSeverityToLevel s = ''note'')
   \<and> mapSeverityToLevel s \<in> {''error'', ''warning'', ''note''}
   \<and> mapSeverityToLevel (toLowerCase s) = mapSeverityToLevel s
   \<and> (toLowerCase s = toLowerCase t \<longrightarrow> mapSeverityToLevel s = mapSeverityToLevel t)"
  by (simp add: mapSeverityToLevel_def Let_def toLowerCase_idem)

theorem mapSeverityToLevel_total_witness:
  "mapSeverityToLevel ''ERROR'' = ''error''
   \<and> mapSeverityToLevel ''Medium'' = ''warning''
   \<and> mapSeverityToLevel ''low'' = ''note''
   \<and> mapSeverityToLevel [] = ''note''
   \<and> mapSeverityToLevel ''Critical'' = mapSeverityToLevel ''CRITICAL''"
proof -
  have e: "toLowerCase ''ERROR'' = ''error''"
    by code_simp
  have m: "toLowerCase ''Medium'' = ''medium''"
    by code_simp
  have l: "toLowerCase ''low'' \<notin> {''error'', ''critical'', ''warning'', ''medium''}"
    by code_simp
  have n: "toLowerCase [] \<notin> {''error'', ''critical'', ''warning'', ''medium''}"
    by code_simp
  have c: "toLowerCase ''Critical'' = toLowerCase ''CRITICAL''"
    by code_simp
  have 1: "mapSeverityToLevel ''ERROR'' = ''error''"
    by (rule mapSeverityToLevel_total [of "''ERROR''", THEN conjunct1, THEN mp,
          OF disjI1 [OF e]])
  have 2: "mapSeverityToLevel ''Medium'' = ''warning''"
    by (rule mapSeverityToLevel_total [of "''Medium''", THEN conjunct2, THEN conjunct1,
          THEN mp, OF disjI2 [OF m]])
  have 3: "mapSeverityToLevel ''low'' = ''note''"
    by (rule mapSeverityToLevel_total [of "''low''", THEN conjunct2, THEN conjunct2,
          THEN conjunct1, THEN mp, OF l])
  have 4: "mapSeverityToLevel [] = ''note''"
    by (rule mapSeverityToLevel_total [of "[]", THEN conjunct2, THEN conjunct2,
          THEN conjunct1, THEN mp, OF n])
  have 5: "mapSeverityToLevel ''Critical'' = mapSeverityToLevel ''CRITICAL''"
    by (rule mapSeverityToLevel_total [of "''Critical''" "''CRITICAL''", THEN conjunct2,
          THEN conjunct2, THEN conjunct2, THEN conjunct2, THEN conjunct2, THEN mp, OF c])
  show ?thesis
    using 1 2 3 4 5 by (intro conjI)
qed

lemma has_start_column:
  "has ''start_column'' (filterAlertByDetail a lvl) = (lvl = Medium \<or> lvl = Full)"
  by (cases lvl; cases "a_help a";
      simp add: has_def props_def filterAlertByDetail_def alert_props_def Let_def)

lemma get_start_column:
  "lvl = Medium \<or> lvl = Full \<Longrightarrow>
   get_prop (filterAlertByDetail a lvl) ''start_column''
     = JNum (l_start_column (i_location (a_most_recent_instance a)))"
  by (cases lvl) (simp_all add: get_prop_def props_def filterAlertByDetail_def Let_def)

lemma get_common:
  assumes "lvl \<noteq> Raw"
  shows "get_prop (filterAlertByDetail a lvl) ''severity'' = JStr (r_severity (a_rule a))"
    and "get_prop (filterAlertByDetail a lvl) ''rule_id'' = JStr (r_id (a_rule a))"
    and "get_prop (filterAlertByDetail a lvl) ''message''
          = JStr (m_text (i_message (a_most_recent_instance a)))"
    and "get_prop (filterAlertByDetail a lvl) ''file_path''
          = JStr (l_path (i_location (a_most_recent_instance a)))"
    and "get_prop (filterAlertByDetail a lvl) ''start_line''
          = JNum (l_start_line (i_location (a_most_recent_instance a)))"
    and "get_prop (filterAlertByDetail a lvl) ''commit_sha''
          = JStr (i_commit_sha (a_most_recent_instance a))"
  using assms
  by (cases lvl; simp add: get_prop_def props_def filterAlertByDetail_def Let_def)+

lemma sarif_result_of_flat:
  "lvl \<noteq> Raw \<Longrightarrow>
   sarif_result_of lvl a =
     Inr \<lparr>ruleId = JStr (r_id (a_rule a)),
          level = mapSeverityToLevel (r_severity (a_rule a)),
          messageText = JStr (m_text (i_message (a_most_recent_instance a))),
          fileUri = JStr (l_path (i_location (a_most_recent_instance a))),
          startLine = JNum (l_start_line (i_location (a_most_recent_instance a))),
          startColumn =
            (if lvl = Minimum then JNum 1
             else JNum (l_start_column (i_location (a_most_recent_instance a))))\<rparr>"
  by (cases lvl)
     (simp_all add: sarif_result_of_def Let_def get_common has_start_column get_start_column)

lemma add_results_flat:
  "lvl \<noteq> Raw \<Longrightarrow>
   add_results lvl rs alerts =
     Inr (rs @ map (\<lambda>a.
       \<lparr>ruleId = JStr (r_id (a_rule a)),
        level = mapSeverityToLevel (r_severity (a_rule a)),
        messageText = JStr (m_text (i_message (a_most_recent_instance a))),
        fileUri = JStr (l_path (i_location (a_most_recent_instance a))),
        startLine = JNum (l_start_line (i_location (a_most_recent_instance a))),
        startColumn =
          (if lvl = Minimum then JNum 1
           else JNum (l_start_column (i_location (a_most_recent_instance a))))\<rparr>) alerts)"
  by (induction alerts arbitrary: rs) (simp_all add: sarif_result_of_flat)

lemma has_tool_version: "has ''tool_version'' (filterAlertByDetail a Full)"
  by (simp add: has_def props_def filterAlertByDetail_def Let_def)

lemma get_tool_version:
  "get_prop (filterAlertByDetail a Full) ''tool_version'' = JStr (t_version (a_tool a))"
  by (simp add: get_prop_def props_def filterAlertByDetail_def Let_def)

text \<open>
  C7. At the full level with at least one alert the encoder builds a run whose tool
  driver version is the \<open>tool_version\<close> of the first alert's full projection, which is
  that alert's tool version. At the minimum and the medium level, and at the full level
  with no alert, it builds a run whose tool driver version is the placeholder \<open>1.0.0\<close>.
\<close>

theorem formatAsSARIF_tool_version:
  "(\<exists>rs. formatAsSARIF_doc (a # rest) Full =
      Inr (SarifLog \<lparr>toolDriverName = ''CodeQL'',
                     toolDriverVersion = get_prop (filterAlertByDetail a Full) ''tool_version'',
                     results = rs\<rparr>))
   \<and> get_prop (filterAlertByDetail a Full) ''tool_version'' = JStr (t_version (a_tool a))
   \<and> (lvl = Minimum \<or> lvl = Medium \<or> (lvl = Full \<and> alerts = []) \<longrightarrow>
       (\<exists>rs. formatAsSARIF_doc alerts lvl =
          Inr (SarifLog \<lparr>toolDriverName = ''CodeQL'', toolDriverVersion = JStr ''1.0.0'',
                         results = rs\<rparr>)))"
  by (auto simp add: formatAsSARIF_doc_def add_results_flat toolVersion_def Let_def
        has_tool_version get_tool_version simp del: add_results.simps)

theorem formatAsSARIF_tool_version_witness:
  "(\<exists>rs. formatAsSARIF_doc [mockAlert] Full =
      Inr (SarifLog \<lparr>toolDriverName = ''CodeQL'', toolDriverVersion = JStr ''2.0.0'',
                     results = rs\<rparr>))
   \<and> (\<exists>rs. formatAsSARIF_doc [mockAlert] Medium =
      Inr (SarifLog \<lparr>toolDriverName = ''CodeQL'', toolDriverVersion = JStr ''1.0.0'',
                     results = rs\<rparr>))
   \<and> (\<exists>rs. formatAsSARIF_doc [] Full =
      Inr (SarifLog \<lparr>toolDriverName = ''CodeQL'', toolDriverVersion = JStr ''1.0.0'',
                     results = rs\<rparr>))"
proof -
  note t = formatAsSARIF_tool_version [of mockAlert "[]"]
  have v: "t_version (a_tool mockAlert) = ''2.0.0''"
    by (simp add: mockAlert_def)
  have 1: "\<exists>rs. formatAsSARIF_doc [mockAlert] Full =
      Inr (SarifLog \<lparr>toolDriverName = ''CodeQL'', toolDriverVersion = JStr ''2.0.0'',
                     results = rs\<rparr>)"
    using t [of Full "[]", THEN conjunct1]
    unfolding t [of Full "[]", THEN conjunct2, THEN conjunct1] v .
  have 2: "\<exists>rs. formatAsSARIF_doc [mockAlert] Medium =
      Inr (SarifLog \<lparr>toolDriverName = ''CodeQL'', toolDriverVersion = JStr ''1.0.0'',
                     results = rs\<rparr>)"
    by (rule t [of Medium "[mockAlert]", THEN conjunct2, THEN conjunct2, THEN mp])
       (rule disjI2, rule disjI1, rule refl)
  have 3: "\<exists>rs. formatAsSARIF_doc [] Full =
      Inr (SarifLog \<lparr>toolDriverName = ''CodeQL'', toolDriverVersion = JStr ''1.0.0'',
                     results = rs\<rparr>)"
    by (rule t [of Full "[]", THEN conjunct2, THEN conjunct2, THEN mp])
       (rule disjI2, rule disjI2, rule conjI, rule refl, rule refl)
  from 1 2 3 show ?thesis
    by (intro conjI)
qed

text \<open>
  C8. At every level but raw the encoder builds one result per alert, in order, from
  the alert's rule id, mapped severity, message, path and start line; its start column
  is the \<open>start_column\<close> of the projection when the projection carries one, which it
  does at the medium and the full level, and \<open>1\<close> when it does not, at the minimum level.
\<close>

theorem formatAsSARIF_start_column:
  "lvl \<noteq> Raw \<Longrightarrow>
   (\<exists>v. formatAsSARIF_doc alerts lvl =
      Inr (SarifLog \<lparr>toolDriverName = ''CodeQL'', toolDriverVersion = v,
        results = map (\<lambda>a.
          \<lparr>ruleId = JStr (r_id (a_rule a)),
           level = mapSeverityToLevel (r_severity (a_rule a)),
           messageText = JStr (m_text (i_message (a_most_recent_instance a))),
           fileUri = JStr (l_path (i_location (a_most_recent_instance a))),
           startLine = JNum (l_start_line (i_location (a_most_recent_instance a))),
           startColumn =
             (if has ''start_column'' (filterAlertByDetail a lvl)
              then get_prop (filterAlertByDetail a lvl) ''start_column''
              else JNum 1)\<rparr>) alerts\<rparr>))
   \<and> (\<forall>a. has ''start_column'' (filterAlertByDetail a lvl) = (lvl = Medium \<or> lvl = Full))
   \<and> (\<forall>a. has ''start_column'' (filterAlertByDetail a lvl) \<longrightarrow>
          get_prop (filterAlertByDetail a lvl) ''start_column''
            = JNum (l_start_column (i_location (a_most_recent_instance a))))"
  by (cases lvl)
     (simp_all add: formatAsSARIF_doc_def add_results_flat has_start_column get_start_column
        del: add_results.simps)

theorem formatAsSARIF_start_column_witness:
  "Medium \<noteq> Raw \<and> Minimum \<noteq> Raw
   \<and> has ''start_column'' (filterAlertByDetail mockAlert Medium)
   \<and> get_prop (filterAlertByDetail mockAlert Medium) ''start_column'' = JNum 5
   \<and> \<not> has ''start_column'' (filterAlertByDetail mockAlert Minimum)
   \<and> (\<exists>v. formatAsSARIF_doc [mockAlert] Medium =
        Inr (SarifLog \<lparr>toolDriverName = ''CodeQL'', toolDriverVersion = v,
          results =
            [\<lparr>ruleId = JStr ''js/sql-injection'',
              level = ''error'',
              messageText = JStr ''Potential SQL injection detected'',
              fileUri = JStr ''src/database.js'',
              startLine = JNum 10,
              startColumn = JNum 5\<rparr>]\<rparr>))
   \<and> (\<exists>v. formatAsSARIF_doc [mockAlert] Minimum =
        Inr (SarifLog \<lparr>toolDriverName = ''CodeQL'', toolDriverVersion = v,
          results =
            [\<lparr>ruleId = JStr ''js/sql-injection'',
              level = ''error'',
              messageText = JStr ''Potential SQL injection detected'',
              fileUri = JStr ''src/database.js'',
              startLine = JNum 10,
              startColumn = JNum 1\<rparr>]\<rparr>))"
proof -
  have med: "Medium \<noteq> Raw" and mi: "Minimum \<noteq> Raw"
    by simp_all
  note tm = formatAsSARIF_start_column [OF med, of "[mockAlert]"]
  note tn = formatAsSARIF_start_column [OF mi, of "[mockAlert]"]
  have sev: "mapSeverityToLevel (r_severity (a_rule mockAlert)) = ''error''"
    unfolding mockAlert_def by code_simp
  have hm: "has ''start_column'' (filterAlertByDetail mockAlert Medium)"
    using tm [THEN conjunct2, THEN conjunct1, THEN spec, of mockAlert] by simp
  have gm: "get_prop (filterAlertByDetail mockAlert Medium) ''start_column'' = JNum 5"
    using tm [THEN conjunct2, THEN conjunct2, THEN spec, of mockAlert, THEN mp, OF hm]
    by (simp add: mockAlert_def)
  have hn: "\<not> has ''start_column'' (filterAlertByDetail mockAlert Minimum)"
    using tn [THEN conjunct2, THEN conjunct1, THEN spec, of mockAlert] by simp
  have dm: "\<exists>v. formatAsSARIF_doc [mockAlert] Medium =
        Inr (SarifLog \<lparr>toolDriverName = ''CodeQL'', toolDriverVersion = v,
          results =
            [\<lparr>ruleId = JStr ''js/sql-injection'',
              level = ''error'',
              messageText = JStr ''Potential SQL injection detected'',
              fileUri = JStr ''src/database.js'',
              startLine = JNum 10,
              startColumn = JNum 5\<rparr>]\<rparr>)"
    using tm [THEN conjunct1] hm gm sev by (simp add: mockAlert_def)
  have dn: "\<exists>v. formatAsSARIF_doc [mockAlert] Minimum =
        Inr (SarifLog \<lparr>toolDriverName = ''CodeQL'', toolDriverVersion = v,
          results =
            [\<lparr>ruleId = JStr ''js/sql-injection'',
              level = ''error'',
              messageText = JStr ''Potential SQL injection detected'',
              fileUri = JStr ''src/database.js'',
              startLine = JNum 10,
              startColumn = JNum 1\<rparr>]\<rparr>)"
    using tn [THEN conjunct1] hn sev by (simp add: mockAlert_def)
  from med mi hm gm hn dm dn show ?thesis
    by (intro conjI)
qed

section \<open>Properties of the plain-text and the markdown encoder\<close>

lemma has_minimum:
  "\<not> has ''rule_description'' (filterAlertByDetail a Minimum)"
  "\<not> has ''start_column'' (filterAlertByDetail a Minimum)"
  "\<not> has ''state'' (filterAlertByDetail a Minimum)"
  "\<not> has ''ref'' (filterAlertByDetail a Minimum)"
  by (simp_all add: has_def props_def filterAlertByDetail_def)

lemma get_minimum:
  "get_prop (filterAlertByDetail a Minimum) ''number'' = JNum (a_number a)"
  "get_prop (filterAlertByDetail a Minimum) ''rule_name'' = JStr (r_name (a_rule a))"
  "get_prop (filterAlertByDetail a Minimum) ''end_line''
     = JNum (l_end_line (i_location (a_most_recent_instance a)))"
  by (simp_all add: get_prop_def props_def filterAlertByDetail_def)

lemma text_block_minimum:
  "text_block Minimum a =
    [''Alert #'' @ num_str (a_number a),
     ''Rule: '' @ r_id (a_rule a),
     ''Name: '' @ r_name (a_rule a),
     ''Severity: '' @ r_severity (a_rule a),
     '''',
     ''Location:'',
     ''  File: '' @ l_path (i_location (a_most_recent_instance a)),
     ''  Lines: '' @ num_str (l_start_line (i_location (a_most_recent_instance a)))
        @ ''-'' @ num_str (l_end_line (i_location (a_most_recent_instance a))),
     '''',
     ''Message:'',
     ''  '' @ m_text (i_message (a_most_recent_instance a)),
     '''',
     ''Commit: '' @ i_commit_sha (a_most_recent_instance a),
     replicate 80 CHR ''-'' @ NL]"
  by (simp add: text_block_def Let_def has_minimum get_minimum get_common)

lemma md_block_minimum:
  "md_block Minimum a =
    [''### Alert #'' @ num_str (a_number a) @ '': '' @ r_name (a_rule a),
     '''',
     ''**Rule ID:** `'' @ r_id (a_rule a) @ ''`'',
     ''**Severity:** '' @ r_severity (a_rule a),
     '''',
     ''#### Location'',
     '''',
     ''- **File:** `'' @ l_path (i_location (a_most_recent_instance a)) @ ''`'',
     ''- **Lines:** '' @ num_str (l_start_line (i_location (a_most_recent_instance a)))
        @ ''-'' @ num_str (l_end_line (i_location (a_most_recent_instance a))),
     '''',
     ''#### Message'',
     '''',
     m_text (i_message (a_most_recent_instance a)),
     '''',
     ''#### Details'',
     '''',
     ''- **Commit:** `'' @ i_commit_sha (a_most_recent_instance a) @ ''`'',
     '''',
     ''---'',
     '''']"
  by (simp add: md_block_def Let_def has_minimum get_minimum get_common join_elem_def)

lemma text_block_commit:
  "lvl \<noteq> Raw \<Longrightarrow>
   ''Commit: '' @ i_commit_sha (a_most_recent_instance a) \<in> set (text_block lvl a)"
  by (simp add: text_block_def Let_def get_common)

lemma md_block_commit:
  "lvl \<noteq> Raw \<Longrightarrow>
   ''- **Commit:** `'' @ i_commit_sha (a_most_recent_instance a) @ ''`''
     \<in> set (md_block lvl a)"
  by (simp add: md_block_def Let_def get_common)

text \<open>
  C9. At the minimum level the lines of the plain-text report are the four header
  lines and then, for every alert, exactly fourteen lines: number, rule, name,
  severity, the location with file and line range, the message, the commit hash and
  the separator; no description, column-range or state line is among them. The
  markdown report likewise is its fifteen header lines and then twenty lines per alert,
  the commit line among them and no description, columns or state line. At every level
  but raw, both reports hold the commit line of every alert.
\<close>

theorem minimum_level_lines:
  "formatAsText_lines alerts Minimum =
     [''CodeQL Security Scan Report'',
      ''Total Alerts: '' @ digits (length alerts),
      ''Detail Level: minimum'',
      replicate 80 CHR ''='' @ NL]
     @ concat (map (\<lambda>a.
        [''Alert #'' @ num_str (a_number a),
         ''Rule: '' @ r_id (a_rule a),
         ''Name: '' @ r_name (a_rule a),
         ''Severity: '' @ r_severity (a_rule a),
         '''',
         ''Location:'',
         ''  File: '' @ l_path (i_location (a_most_recent_instance a)),
         ''  Lines: '' @ num_str (l_start_line (i_location (a_most_recent_instance a)))
            @ ''-'' @ num_str (l_end_line (i_location (a_most_recent_instance a))),
         '''',
         ''Message:'',
         ''  '' @ m_text (i_message (a_most_recent_instance a)),
         '''',
         ''Commit: '' @ i_commit_sha (a_most_recent_instance a),
         replicate 80 CHR ''-'' @ NL]) alerts)
   \<and> formatAsMarkdown_lines now alerts repoName Minimum =
     [''# CodeQL Security Scan Report'',
      '''',
      ''**Repository:** '' @ repoName,
      ''**Total Alerts:** '' @ digits (length alerts),
      ''**Detail Level:** minimum'',
      ''**Generated:** '' @ now,
      '''',
      ''---'',
      '''',
      ''## Summary by Severity'',
      '''',
      generateMarkdownTable (summaryTableData alerts),
      '''',
      ''## Detailed Alerts'',
      '''']
     @ concat (map (\<lambda>a.
        [''### Alert #'' @ num_str (a_number a) @ '': '' @ r_name (a_rule a),
         '''',
         ''**Rule ID:** `'' @ r_id (a_rule a) @ ''`'',
         ''**Severity:** '' @ r_severity (a_rule a),
         '''',
         ''#### Location'',
         '''',
         ''- **File:** `'' @ l_path (i_location (a_most_recent_instance a)) @ ''`'',
         ''- **Lines:** '' @ num_str (l_start_line (i_location (a_most_recent_instance a)))
            @ ''-'' @ num_str (l_end_line (i_location (a_most_recent_instance a))),
         '''',
         ''#### Message'',
         '''',
         m_text (i_message (a_most_recent_instance a)),
         '''',
         ''#### Details'',
         '''',
         ''- **Commit:** `'' @ i_commit_sha (a_most_recent_instance a) @ ''`'',
         '''',
         ''---'',
         '''']) alerts)
   \<and> (\<forall>a \<in> set alerts. lvl \<noteq> Raw \<longrightarrow>
         ''Commit: '' @ i_commit_sha (a_most_recent_instance a)
           \<in> set (formatAsText_lines alerts lvl)
         \<and> ''- **Commit:** `'' @ i_commit_sha (a_most_recent_instance a) @ ''`''
           \<in> set (formatAsMarkdown_lines now alerts repoName lvl))
   \<and> formatAsText alerts lvl = join NL (formatAsText_lines alerts lvl)
   \<and> formatAsMarkdown now alerts repoName lvl
       = join NL (formatAsMarkdown_lines now alerts repoName lvl)"
proof (intro conjI ballI impI)
  show "formatAsText_lines alerts Minimum =
     [''CodeQL Security Scan Report'',
      ''Total Alerts: '' @ digits (length alerts),
      ''Detail Level: minimum'',
      replicate 80 CHR ''='' @ NL]
     @ concat (map (\<lambda>a.
        [''Alert #'' @ num_str (a_number a),
         ''Rule: '' @ r_id (a_rule a),
         ''Name: '' @ r_name (a_rule a),
         ''Severity: '' @ r_severity (a_rule a),
         '''',
         ''Location:'',
         ''  File: '' @ l_path (i_location (a_most_recent_instance a)),
         ''  Lines: '' @ num_str (l_start_line (i_location (a_most_recent_instance a)))
            @ ''-'' @ num_str (l_end_line (i_location (a_most_recent_instance a))),
         '''',
         ''Message:'',
         ''  '' @ m_text (i_message (a_most_recent_instance a)),
         '''',
         ''Commit: '' @ i_commit_sha (a_most_recent_instance a),
         replicate 80 CHR ''-'' @ NL]) alerts)"
    unfolding formatAsText_lines_def foldl_push_blocks text_block_minimum
    by (simp add: level_str_def)
next
  show "formatAsMarkdown_lines now alerts repoName Minimum =
     [''# CodeQL Security Scan Report'',
      '''',
      ''**Repository:** '' @ repoName,
      ''**Total Alerts:** '' @ digits (length alerts),
      ''**Detail Level:** minimum'',
      ''**Generated:** '' @ now,
      '''',
      ''---'',
      '''',
      ''## Summary by Severity'',
      '''',
      generateMarkdownTable (summaryTableData alerts),
      '''',
      ''## Detailed Alerts'',
      '''']
     @ concat (map (\<lambda>a.
        [''### Alert #'' @ num_str (a_number a) @ '': '' @ r_name (a_rule a),
         '''',
         ''**Rule ID:** `'' @ r_id (a_rule a) @ ''`'',
         ''**Severity:** '' @ r_severity (a_rule a),
         '''',
         ''#### Location'',
         '''',
         ''- **File:** `'' @ l_path (i_location (a_most_recent_instance a)) @ ''`'',
         ''- **Lines:** '' @ num_str (l_start_line (i_location (a_most_recent_instance a)))
            @ ''-'' @ num_str (l_end_line (i_location (a_most_recent_instance a))),
         '''',
         ''#### Message'',
         '''',
         m_text (i_message (a_most_recent_instance a)),
         '''',
         ''#### Details'',
         '''',
         ''- **Commit:** `'' @ i_commit_sha (a_most_recent_instance a) @ ''`'',
         '''',
         ''---'',
         '''']) alerts)"
    unfolding formatAsMarkdown_lines_def foldl_push_blocks md_block_minimum
    by (simp add: level_str_def)
next
  fix a assume a: "a \<in> set alerts" and l: "lvl \<noteq> Raw"
  from a text_block_commit [OF l, of a]
  show "''Commit: '' @ i_commit_sha (a_most_recent_instance a)
      \<in> set (formatAsText_lines alerts lvl)"
    unfolding formatAsText_lines_def foldl_push_blocks by auto
  from a md_block_commit [OF l, of a]
  show "''- **Commit:** `'' @ i_commit_sha (a_most_recent_instance a) @ ''`''
      \<in> set (formatAsMarkdown_lines now alerts repoName lvl)"
    unfolding formatAsMarkdown_lines_def foldl_push_blocks by auto
next
  show "formatAsText alerts lvl = join NL (formatAsText_lines alerts lvl)"
    by (simp add: formatAsText_def)
  show "formatAsMarkdown now alerts repoName lvl
      = join NL (formatAsMarkdown_lines now alerts repoName lvl)"
    by (simp add: formatAsMarkdown_def)
qed

text \<open>The alert of the test suite, at the minimum and at the medium level.\<close>

theorem minimum_level_lines_witness:
  "mockAlert \<in> set [mockAlert] \<and> Medium \<noteq> Raw
   \<and> ''Commit: abc123'' \<in> set (formatAsText_lines [mockAlert] Medium)
   \<and> ''- **Commit:** `abc123`''
       \<in> set (formatAsMarkdown_lines ''2024-01-01T00:00:00.000Z'' [mockAlert] ''owner/repo'' Medium)
   \<and> formatAsText_lines [mockAlert] Minimum =
       [''CodeQL Security Scan Report'',
        ''Total Alerts: 1'',
        ''Detail Level: minimum'',
        replicate 80 CHR ''='' @ NL,
        ''Alert #1'',
        ''Rule: js/sql-injection'',
        ''Name: SQL Injection'',
        ''Severity: error'',
        '''',
        ''Location:'',
        ''  File: src/database.js'',
        ''  Lines: 10-12'',
        '''',
        ''Message:'',
        ''  Potential SQL injection detected'',
        '''',
        ''Commit: abc123'',
        replicate 80 CHR ''-'' @ NL]"
proof -
  note t = minimum_level_lines
    [of "[mockAlert]" "''2024-01-01T00:00:00.000Z''" "''owner/repo''" Medium]
  have m: "mockAlert \<in> set [mockAlert]"
    by simp
  have l: "Medium \<noteq> Raw"
    by simp
  have sha: "i_commit_sha (a_most_recent_instance mockAlert) = ''abc123''"
    by (simp add: mockAlert_def)
  note c = t [THEN conjunct2, THEN conjunct2, THEN conjunct1, THEN bspec, OF m, THEN mp, OF l]
  have ct: "''Commit: abc123'' \<in> set (formatAsText_lines [mockAlert] Medium)"
    using c [THEN conjunct1] unfolding sha by simp
  have cm: "''- **Commit:** `abc123`''
      \<in> set (formatAsMarkdown_lines ''2024-01-01T00:00:00.000Z'' [mockAlert] ''owner/repo'' Medium)"
    using c [THEN conjunct2] unfolding sha by simp
  have d: "digits (length [mockAlert]) = ''1''" "num_str (a_number mockAlert) = ''1''"
    "num_str (l_start_line (i_location (a_most_recent_instance mockAlert))) = ''10''"
    "num_str (l_end_line (i_location (a_most_recent_instance mockAlert))) = ''12''"
    unfolding mockAlert_def by code_simp+
  have ls: "formatAsText_lines [mockAlert] Minimum =
       [''CodeQL Security Scan Report'',
        ''Total Alerts: 1'',
        ''Detail Level: minimum'',
        replicate 80 CHR ''='' @ NL,
        ''Alert #1'',
        ''Rule: js/sql-injection'',
        ''Name: SQL Injection'',
        ''Severity: error'',
        '''',
        ''Location:'',
        ''  File: src/database.js'',
        ''  Lines: 10-12'',
        '''',
        ''Message:'',
        ''  Potential SQL injection detected'',
        '''',
        ''Commit: abc123'',
        replicate 80 CHR ''-'' @ NL]"
    unfolding t [THEN conjunct1] using d by (simp add: mockAlert_def)
  from m l ct cm ls show ?thesis
    by (intro conjI)
qed

section \<open>The encoders and the clock\<close>

lemma formatAsMarkdown_lines_clock:
  "formatAsMarkdown_lines now alerts repoName lvl
     = (formatAsMarkdown_lines now' alerts repoName lvl)[5 := ''**Generated:** '' @ now]"
  unfolding formatAsMarkdown_lines_def foldl_push_blocks by simp

text \<open>
  C4, as the claim states it, fails for the markdown encoder: the same alerts, repository
  name and level give two different reports at two readings of the clock.
\<close>

theorem formatAsMarkdown_clock_counterexample:
  "formatAsMarkdown ''2024-01-01T00:00:00.000Z'' [mockAlert] ''owner/repo'' Medium
   \<noteq> formatAsMarkdown ''2024-01-01T00:00:00.001Z'' [mockAlert] ''owner/repo'' Medium"
  by code_simp

text \<open>
  C4, amended. The JSON, the SARIF and the plain-text encoder give the same result
  whatever the clock reads. The markdown encoder puts the clock's reading into its sixth
  line, \<open>**Generated:**\<close>, and nowhere else: its report is the one of any other reading
  with that line replaced.
\<close>

theorem encoders_clock_dependence:
  "(format \<noteq> ''md'' \<longrightarrow>
      format_switch build now format alerts repoName lvl
        = format_switch build now' format alerts repoName lvl)
   \<and> format_switch build now ''md'' alerts repoName lvl
        = Inr (formatAsMarkdown now alerts repoName lvl)
   \<and> formatAsMarkdown_lines now alerts repoName lvl ! 5 = ''**Generated:** '' @ now
   \<and> formatAsMarkdown_lines now alerts repoName lvl
        = (formatAsMarkdown_lines now' alerts repoName lvl)[5 := ''**Generated:** '' @ now]
   \<and> formatAsMarkdown now alerts repoName lvl
        = join NL ((formatAsMarkdown_lines now' alerts repoName lvl)
                    [5 := ''**Generated:** '' @ now])"
proof (intro conjI impI)
  assume "format \<noteq> ''md''"
  then show "format_switch build now format alerts repoName lvl
      = format_switch build now' format alerts repoName lvl"
    by (simp add: format_switch_def)
next
  show "format_switch build now ''md'' alerts repoName lvl
      = Inr (formatAsMarkdown now alerts repoName lvl)"
    by (simp add: format_switch_def)
next
  show "formatAsMarkdown_lines now alerts repoName lvl ! 5 = ''**Generated:** '' @ now"
    unfolding formatAsMarkdown_lines_def foldl_push_blocks by simp
next
  show "formatAsMarkdown_lines now alerts repoName lvl
      = (formatAsMarkdown_lines now' alerts repoName lvl)[5 := ''**Generated:** '' @ now]"
    by (rule formatAsMarkdown_lines_clock)
next
  show "formatAsMarkdown now alerts repoName lvl
      = join NL ((formatAsMarkdown_lines now' alerts repoName lvl)
                  [5 := ''**Generated:** '' @ now])"
    unfolding formatAsMarkdown_def formatAsMarkdown_lines_clock [symmetric] ..
qed

theorem encoders_clock_dependence_witness:
  "''txt'' \<noteq> ''md''
   \<and> format_switch (\<lambda>run. []) ''2024-01-01T00:00:00.000Z'' ''txt'' [mockAlert] ''owner/repo'' Medium
     = format_switch (\<lambda>run. []) ''2024-01-01T00:00:00.001Z'' ''txt'' [mockAlert] ''owner/repo'' Medium"
proof -
  have f: "''txt'' \<noteq> ''md''"
    by simp
  from f encoders_clock_dependence [THEN conjunct1, THEN mp, OF f]
  show ?thesis
    by (intro conjI)
qed

end
